theory Spec2Isabelle
  imports Main "HOL-Library.Word" "HOL-Library.Char_ord" "HOL-Library.List_Lexorder"
    "HOL-Library.Sublist"
begin

section \<open>Strings\<close>

text \<open>
  A \<open>std::string\<close> and a \<open>shared::StringT\<close> are byte sequences (\<open>string\<close>); a
  \<open>std::wstring\<close> is a sequence of 16-bit code units. A null \<open>LPCWSTR\<close> is \<open>None\<close>.
\<close>

type_synonym wstring = "16 word list"

text \<open>
  \<open>s.c_str()\<close> handed to a constructor or a C function that takes \<open>const char *\<close>: the
  callee reads the bytes before the first NUL.
\<close>

definition c_str :: "string \<Rightarrow> string" where
  "c_str s = takeWhile (\<lambda>c. c \<noteq> CHR 0x00) s"

text \<open>
  \<open>std::toupper\<close> and \<open>tolower\<close> in the classic "C" locale: only the 26 ASCII letters
  change, by clearing or setting bit 5 (the fifth argument of \<open>Char\<close>, value 32).
\<close>

definition toupper :: "char \<Rightarrow> char" where
  "toupper c = (if CHR ''a'' \<le> c \<and> c \<le> CHR ''z''
     then (case c of Char b0 b1 b2 b3 b4 b5 b6 b7 \<Rightarrow> Char b0 b1 b2 b3 b4 False b6 b7)
     else c)"

definition tolower :: "char \<Rightarrow> char" where
  "tolower c = (if CHR ''A'' \<le> c \<and> c \<le> CHR ''Z''
     then (case c of Char b0 b1 b2 b3 b4 b5 b6 b7 \<Rightarrow> Char b0 b1 b2 b3 b4 True b6 b7)
     else c)"

text \<open>
  \<open>shared::string_cast\<close> is declared outside hookcontext.cpp; the three conversions
  the file calls are parameters of the model: wide to UTF-8, UTF-8 to wide, and narrow to
  wide with the code page argument left to its default (as the two lookup functions call
  it).
\<close>

record string_cast =
  to_utf8 :: "wstring \<Rightarrow> string"
  from_utf8 :: "string \<Rightarrow> wstring"
  from_default :: "string \<Rightarrow> wstring"

text \<open>
  One concrete conversion, for running the model: code units below 256 and bytes are
  mapped to each other by value, which is what every code page does on 7-bit ASCII text.
\<close>

definition widen :: "string \<Rightarrow> wstring" where
  "widen s = map (\<lambda>c. of_nat (of_char c)) s"

definition narrow :: "wstring \<Rightarrow> string" where
  "narrow w = map (\<lambda>u. char_of (unat u)) w"

definition byte_cast :: string_cast where
  "byte_cast = \<lparr>to_utf8 = narrow, from_utf8 = widen, from_default = widen\<rparr>"

section \<open>The shared parameters\<close>

text \<open>
  Modelled from the spec: the enumerations \<open>LogLevel\<close> and \<open>CrashDumpsType\<close> and the
  layout of \<open>SharedParameters\<close> and \<open>ForcedLibrary\<close> are declared in headers that are
  not among the sources. The fields are the ones hookcontext.cpp reads and writes; the
  containers are taken as the spec's data model names them: \<open>processList\<close> a set of
  process identifiers, \<open>processBlacklist\<close> a set of strings (listed in the order it is
  iterated, ascending and without duplicates), \<open>forcedLibraries\<close> a list with the newest
  pair in front, the two trackers mappings with unique keys. \<open>userCount\<close> is taken
  as an unsigned 32-bit counter, so that \<open>++\<close> and \<open>--\<close> wrap around.
\<close>

datatype LogLevel = Debug | Info | Warning | Error

datatype CrashDumpsType = Nothing | Mini | Full

record ForcedLibrary =
  processName :: string
  libraryPath :: string

record SharedParameters =
  instanceName :: string
  currentSHMName :: string
  currentInverseSHMName :: string
  debugMode :: bool
  logLevel :: LogLevel
  crashDumpsType :: CrashDumpsType
  crashDumpsPath :: string
  userCount :: "32 word"
  processBlacklist :: "string list"
  processList :: "32 word set"
  deletedFileTracker :: "string \<rightharpoonup> string"
  fakeDirectoryTracker :: "string \<rightharpoonup> string"
  forcedLibraries :: "ForcedLibrary list"

text \<open>
  The methods of \<open>HookContext\<close> below reach the record through \<open>m_Parameters\<close>; they
  are functions of the record, returning the updated record where they mutate it.
\<close>

section \<open>Deleted-file and fake-directory trackers\<close>

text \<open>
  \<open>emplace\<close>, \<open>find\<close> and \<open>erase(key)\<close> of an associative container with unique
  keys: \<open>emplace\<close> inserts only where the key is absent, \<open>erase\<close> returns the number of
  elements removed.
\<close>

definition emplace :: "('k \<rightharpoonup> 'v) \<Rightarrow> 'k \<Rightarrow> 'v \<Rightarrow> ('k \<rightharpoonup> 'v)" where
  "emplace m k v = (case m k of None \<Rightarrow> m(k \<mapsto> v) | Some _ \<Rightarrow> m)"

definition erase :: "('k \<rightharpoonup> 'v) \<Rightarrow> 'k \<Rightarrow> nat \<times> ('k \<rightharpoonup> 'v)" where
  "erase m k = (case m k of None \<Rightarrow> (0, m) | Some _ \<Rightarrow> (1, m(k := None)))"

definition addDeletedFile ::
  "string_cast \<Rightarrow> wstring \<Rightarrow> wstring \<Rightarrow> SharedParameters \<Rightarrow> SharedParameters" where
  "addDeletedFile sc fromPath toPath sp =
     (let s_fromPath = c_str (to_utf8 sc fromPath);
          s_toPath = c_str (to_utf8 sc toPath)
      in sp\<lparr>deletedFileTracker := emplace (deletedFileTracker sp) s_fromPath s_toPath\<rparr>)"

definition existsDeletedFile :: "string_cast \<Rightarrow> wstring \<Rightarrow> SharedParameters \<Rightarrow> bool" where
  "existsDeletedFile sc fromPath sp =
     (let s_fromPath = c_str (to_utf8 sc fromPath)
      in case deletedFileTracker sp s_fromPath of Some _ \<Rightarrow> True | None \<Rightarrow> False)"

definition forgetDeletedFile ::
  "string_cast \<Rightarrow> wstring \<Rightarrow> SharedParameters \<Rightarrow> bool \<times> SharedParameters" where
  "forgetDeletedFile sc fromPath sp =
     (let s_fromPath = c_str (to_utf8 sc fromPath);
          (n, m) = erase (deletedFileTracker sp) s_fromPath
      in (n \<noteq> 0, sp\<lparr>deletedFileTracker := m\<rparr>))"

definition lookupDeletedFile :: "string_cast \<Rightarrow> wstring \<Rightarrow> SharedParameters \<Rightarrow> wstring" where
  "lookupDeletedFile sc fromPath sp =
     (let s_fromPath = c_str (to_utf8 sc fromPath)
      in case deletedFileTracker sp s_fromPath of
           Some second \<Rightarrow> from_default sc (c_str second)
         | None \<Rightarrow> [])"

definition addFakeDirectory ::
  "string_cast \<Rightarrow> wstring \<Rightarrow> wstring \<Rightarrow> SharedParameters \<Rightarrow> SharedParameters" where
  "addFakeDirectory sc fromPath toPath sp =
     (let s_fromPath = c_str (to_utf8 sc fromPath);
          s_toPath = c_str (to_utf8 sc toPath)
      in sp\<lparr>fakeDirectoryTracker := emplace (fakeDirectoryTracker sp) s_fromPath s_toPath\<rparr>)"

definition existsFakeDirectory :: "string_cast \<Rightarrow> wstring \<Rightarrow> SharedParameters \<Rightarrow> bool" where
  "existsFakeDirectory sc fromPath sp =
     (let s_fromPath = c_str (to_utf8 sc fromPath)
      in case fakeDirectoryTracker sp s_fromPath of Some _ \<Rightarrow> True | None \<Rightarrow> False)"

definition forgetFakeDirectory ::
  "string_cast \<Rightarrow> wstring \<Rightarrow> SharedParameters \<Rightarrow> bool \<times> SharedParameters" where
  "forgetFakeDirectory sc fromPath sp =
     (let s_fromPath = c_str (to_utf8 sc fromPath);
          (n, m) = erase (fakeDirectoryTracker sp) s_fromPath
      in (n \<noteq> 0, sp\<lparr>fakeDirectoryTracker := m\<rparr>))"

definition lookupFakeDirectory :: "string_cast \<Rightarrow> wstring \<Rightarrow> SharedParameters \<Rightarrow> wstring" where
  "lookupFakeDirectory sc fromPath sp =
     (let s_fromPath = c_str (to_utf8 sc fromPath)
      in case fakeDirectoryTracker sp s_fromPath of
           Some second \<Rightarrow> from_default sc (c_str second)
         | None \<Rightarrow> [])"

section \<open>The process list\<close>

datatype fault = Erase_end_iterator

definition registerProcess :: "32 word \<Rightarrow> SharedParameters \<Rightarrow> SharedParameters" where
  "registerProcess pid sp = sp\<lparr>processList := insert pid (processList sp)\<rparr>"

text \<open>
  \<open>find\<close> returns \<open>end()\<close> for an absent key, and \<open>erase(end())\<close> has no defined
  behaviour: that branch is the fault. The first argument is the value of
  \<open>GetCurrentProcessId()\<close>.
\<close>

definition unregisterCurrentProcess ::
  "32 word \<Rightarrow> SharedParameters \<Rightarrow> fault + SharedParameters" where
  "unregisterCurrentProcess currentProcessId sp =
     (if currentProcessId \<in> processList sp
      then Inr (sp\<lparr>processList := processList sp - {currentProcessId}\<rparr>)
      else Inl Erase_end_iterator)"

text \<open>A record with empty containers, to build concrete states from.\<close>

definition blank :: SharedParameters where
  "blank = \<lparr>instanceName = ''uvfs-x'', currentSHMName = ''tree'',
     currentInverseSHMName = ''inverse'', debugMode = False, logLevel = Info,
     crashDumpsType = Nothing, crashDumpsPath = [], userCount = 0,
     processBlacklist = [], processList = {}, deletedFileTracker = Map.empty,
     fakeDirectoryTracker = Map.empty, forcedLibraries = []\<rparr>"

section \<open>The executable blacklist\<close>

text \<open>
  \<open>boost::algorithm::iends_with\<close> and \<open>icontains\<close>, as Boost implements them:
  \<open>is_iequal\<close> compares the upper-cased characters; \<open>ends_with\<close> walks both strings
  from their ends (the arguments of \<open>ends_with_loop\<close> are the reversed strings);
  \<open>contains\<close> answers true for an empty pattern and otherwise tries the pattern at
  every position of the input (\<open>first_finder\<close>, with \<open>match_at\<close> its inner loop).
\<close>

definition is_iequal :: "char \<Rightarrow> char \<Rightarrow> bool" where
  "is_iequal a b = (toupper a = toupper b)"

fun ends_with_loop :: "string \<Rightarrow> string \<Rightarrow> bool" where
  "ends_with_loop _ [] = True"
| "ends_with_loop [] (t # ts) = False"
| "ends_with_loop (x # xs) (t # ts) = (if is_iequal x t then ends_with_loop xs ts else False)"

definition iends_with :: "string \<Rightarrow> string \<Rightarrow> bool" where
  "iends_with input test = ends_with_loop (rev input) (rev test)"

fun match_at :: "string \<Rightarrow> string \<Rightarrow> bool" where
  "match_at _ [] = True"
| "match_at [] (t # ts) = False"
| "match_at (x # xs) (t # ts) = (if is_iequal x t then match_at xs ts else False)"

fun first_finder :: "string \<Rightarrow> string \<Rightarrow> bool" where
  "first_finder [] test = False"
| "first_finder (x # xs) test = (if match_at (x # xs) test then True else first_finder xs test)"

definition icontains :: "string \<Rightarrow> string \<Rightarrow> bool" where
  "icontains input test = (if test = [] then True else first_finder input test)"

text \<open>
  The two loops of \<open>executableBlacklisted\<close>, each leaving at the first match; the last
  argument is the local variable \<open>blacklisted\<close>. The messages written to the log are
  left out.
\<close>

fun app_loop :: "string \<Rightarrow> string list \<Rightarrow> bool \<Rightarrow> bool" where
  "app_loop appName [] blacklisted = blacklisted"
| "app_loop appName (item # items) blacklisted =
     (if iends_with appName item then True else app_loop appName items blacklisted)"

fun cmd_loop :: "string \<Rightarrow> string list \<Rightarrow> bool \<Rightarrow> bool" where
  "cmd_loop cmdLine [] blacklisted = blacklisted"
| "cmd_loop cmdLine (item # items) blacklisted =
     (if icontains cmdLine item then True else cmd_loop cmdLine items blacklisted)"

definition executableBlacklisted ::
  "string_cast \<Rightarrow> wstring option \<Rightarrow> wstring option \<Rightarrow> SharedParameters \<Rightarrow> bool" where
  "executableBlacklisted sc lpApplicationName lpCommandLine sp =
     (let blacklisted = False;
          blacklisted = (case lpApplicationName of
              None \<Rightarrow> blacklisted
            | Some w \<Rightarrow> app_loop (to_utf8 sc w) (processBlacklist sp) blacklisted);
          blacklisted = (case lpCommandLine of
              None \<Rightarrow> blacklisted
            | Some w \<Rightarrow> cmd_loop (to_utf8 sc w) (processBlacklist sp) blacklisted)
      in blacklisted)"

text \<open>
  Insertion into the ordered set: nothing happens when the item is already there.
\<close>

definition blacklistExecutable :: "string_cast \<Rightarrow> wstring \<Rightarrow> SharedParameters \<Rightarrow> SharedParameters" where
  "blacklistExecutable sc executableName sp =
     (let item = c_str (to_utf8 sc executableName)
      in if item \<in> set (processBlacklist sp) then sp
         else sp\<lparr>processBlacklist := insort item (processBlacklist sp)\<rparr>)"

definition clearExecutableBlacklist :: "SharedParameters \<Rightarrow> SharedParameters" where
  "clearExecutableBlacklist sp = sp\<lparr>processBlacklist := []\<rparr>"

text \<open>
  What the claim calls a case-insensitive suffix and a case-insensitive substring: after
  folding the case of both strings, the item is a suffix, or a contiguous part, of the
  string.
\<close>

definition caseless_suffix :: "string \<Rightarrow> string \<Rightarrow> bool" where
  "caseless_suffix item s = suffix (map toupper item) (map toupper s)"

definition caseless_substring :: "string \<Rightarrow> string \<Rightarrow> bool" where
  "caseless_substring item s = sublist (map toupper item) (map toupper s)"

section \<open>Forced libraries\<close>

text \<open>
  \<open>stricmp\<close> of the C runtime on two NUL-terminated strings: the lower-cased bytes are
  compared until they differ or both strings end; the result is zero exactly when no
  difference was found. The end of a string counts as the byte 0.
\<close>

fun stricmp_loop :: "string \<Rightarrow> string \<Rightarrow> int" where
  "stricmp_loop [] [] = 0"
| "stricmp_loop [] (b # bs) = - int (of_char (tolower b))"
| "stricmp_loop (a # as) [] = int (of_char (tolower a))"
| "stricmp_loop (a # as) (b # bs) =
     (if tolower a = tolower b then stricmp_loop as bs
      else int (of_char (tolower a)) - int (of_char (tolower b)))"

definition stricmp :: "string \<Rightarrow> string \<Rightarrow> int" where
  "stricmp string1 string2 = stricmp_loop (c_str string1) (c_str string2)"

definition forceLoadLibrary ::
  "string_cast \<Rightarrow> wstring \<Rightarrow> wstring \<Rightarrow> SharedParameters \<Rightarrow> SharedParameters" where
  "forceLoadLibrary sc processNameW libraryPathW sp =
     sp\<lparr>forcedLibraries :=
          \<lparr>processName = c_str (to_utf8 sc processNameW),
           libraryPath = c_str (to_utf8 sc libraryPathW)\<rparr> # forcedLibraries sp\<rparr>"

definition clearLibraryForceLoads :: "SharedParameters \<Rightarrow> SharedParameters" where
  "clearLibraryForceLoads sp = sp\<lparr>forcedLibraries := []\<rparr>"

fun force_load_loop ::
  "string_cast \<Rightarrow> wstring \<Rightarrow> ForcedLibrary list \<Rightarrow> wstring list \<Rightarrow> wstring list" where
  "force_load_loop sc processNameW [] results = results"
| "force_load_loop sc processNameW (library # rest) results =
     (let processNameString = to_utf8 sc processNameW
      in if stricmp processNameString (processName library) = 0
         then (let libraryPathString = from_utf8 sc (c_str (libraryPath library))
               in force_load_loop sc processNameW rest (results @ [libraryPathString]))
         else force_load_loop sc processNameW rest results)"

definition librariesToForceLoad :: "string_cast \<Rightarrow> wstring \<Rightarrow> SharedParameters \<Rightarrow> wstring list" where
  "librariesToForceLoad sc processNameW sp =
     force_load_loop sc processNameW (forcedLibraries sp) []"

text \<open>
  Case-insensitive exact comparison: the two strings are equal, position by position,
  after case folding.
\<close>

definition caseless_equal :: "string \<Rightarrow> string \<Rightarrow> bool" where
  "caseless_equal s t = (map toupper s = map toupper t)"

section \<open>Initialising the local parameters\<close>

text \<open>
  \<open>USVFSParameters\<close> holds four character arrays and three scalars. Its declaration is
  not among the sources: the extents of the arrays are parameters of the model, and an
  array is represented by the C string it holds. \<open>strncpy_s\<close> with \<open>_TRUNCATE\<close>
  copies as much of the source as fits while leaving room for the terminating NUL; a null
  source or an empty destination invokes the invalid-parameter handler.
\<close>

record USVFSParameters =
  param_instanceName :: string
  param_currentSHMName :: string
  param_currentInverseSHMName :: string
  param_debugMode :: bool
  param_logLevel :: LogLevel
  param_crashDumpsType :: CrashDumpsType
  param_crashDumpsPath :: string

record USVFSParameters_extents =
  instanceName_size :: nat
  currentSHMName_size :: nat
  currentInverseSHMName_size :: nat
  crashDumpsPath_size :: nat

datatype crt_fault = Invalid_parameter

definition strncpy_s_TRUNCATE :: "nat \<Rightarrow> string option \<Rightarrow> crt_fault + string" where
  "strncpy_s_TRUNCATE numberOfElements strSource =
     (case strSource of
        None \<Rightarrow> Inl Invalid_parameter
      | Some s \<Rightarrow>
          if numberOfElements = 0 then Inl Invalid_parameter
          else Inr (take (numberOfElements - 1) (c_str s)))"

definition USVFSInitParametersInt ::
  "USVFSParameters_extents \<Rightarrow> USVFSParameters \<Rightarrow> string option \<Rightarrow> string option \<Rightarrow>
   string option \<Rightarrow> bool \<Rightarrow> LogLevel \<Rightarrow> CrashDumpsType \<Rightarrow> string option \<Rightarrow>
   crt_fault + USVFSParameters" where
  "USVFSInitParametersInt ext parameters src_instanceName src_currentSHMName
      src_currentInverseSHMName src_debugMode src_logLevel src_crashDumpsType src_crashDumpsPath =
     (let p = parameters\<lparr>param_debugMode := src_debugMode, param_logLevel := src_logLevel,
                param_crashDumpsType := src_crashDumpsType\<rparr>
      in case strncpy_s_TRUNCATE (instanceName_size ext) src_instanceName of
           Inl f \<Rightarrow> Inl f
         | Inr s1 \<Rightarrow>
      (case strncpy_s_TRUNCATE (currentSHMName_size ext) src_currentSHMName of
           Inl f \<Rightarrow> Inl f
         | Inr s2 \<Rightarrow>
      (case strncpy_s_TRUNCATE (currentInverseSHMName_size ext) src_currentInverseSHMName of
           Inl f \<Rightarrow> Inl f
         | Inr s3 \<Rightarrow>
      (case strncpy_s_TRUNCATE (crashDumpsPath_size ext) src_crashDumpsPath of
           Inl f \<Rightarrow> Inl f
         | Inr s4 \<Rightarrow>
             Inr (p\<lparr>param_instanceName := s1, param_currentSHMName := s2,
                    param_currentInverseSHMName := s3, param_crashDumpsPath := s4\<rparr>)))))"

definition makeLocal :: "USVFSParameters_extents \<Rightarrow> USVFSParameters \<Rightarrow> SharedParameters \<Rightarrow> crt_fault + USVFSParameters" where
  "makeLocal ext uninitialised sp =
     USVFSInitParametersInt ext uninitialised (Some (instanceName sp)) (Some (currentSHMName sp))
       (Some (currentInverseSHMName sp)) (debugMode sp) (logLevel sp) (crashDumpsType sp)
       (Some (crashDumpsPath sp))"

section \<open>Attaching and detaching\<close>

text \<open>
  The exceptions the constructor throws.
\<close>

datatype exception = runtime_error string | bad_alloc | usage_error string

text \<open>
  A hook context holds a pointer to the shared record: \<open>m_Parameters\<close> is the number
  of the configuration segment in which the record lives. Each of the two tree containers
  is represented by the name of the tree segment it holds, \<open>None\<close> where it holds none
  (\<open>get()\<close> is null).
\<close>

record HookContext =
  m_Parameters :: nat
  m_Tree :: "string option"
  m_InverseTree :: "string option"
  m_DebugMode :: bool
  m_DLLModule :: nat

text \<open>
  The state shared by all processes, and the static \<open>s_Instance\<close> of each: the names
  of the configuration segments that exist, the object \<open>"parameters"\<close> inside each
  segment once it is constructed, the number of segments created so far, for every
  process identifier the instance pointer of that process, and the names of the tree
  segments that exist. A segment that is unlinked loses its name; processes that have it
  mapped keep their pointers into it.
\<close>

record world =
  shm_names :: "string \<rightharpoonup> nat"
  shm_objects :: "nat \<rightharpoonup> SharedParameters"
  shm_count :: nat
  s_Instance :: "32 word \<Rightarrow> HookContext option"
  tree_segments :: "string set"

text \<open>
  Modelled from the spec: the constructor of \<open>SharedParameters\<close> is in a header that is
  not among the sources. The record is "constructed from the caller's seed parameters",
  with empty containers; the value it gives \<open>userCount\<close> is not stated, and is the
  first argument.
\<close>

definition SharedParameters_ctor :: "32 word \<Rightarrow> USVFSParameters \<Rightarrow> SharedParameters" where
  "SharedParameters_ctor initialUserCount reference =
     \<lparr>instanceName = param_instanceName reference,
      currentSHMName = param_currentSHMName reference,
      currentInverseSHMName = param_currentInverseSHMName reference,
      debugMode = param_debugMode reference,
      logLevel = param_logLevel reference,
      crashDumpsType = param_crashDumpsType reference,
      crashDumpsPath = param_crashDumpsPath reference,
      userCount = initialUserCount,
      processBlacklist = [], processList = {}, deletedFileTracker = Map.empty,
      fakeDirectoryTracker = Map.empty, forcedLibraries = []\<rparr>"

text \<open>
  \<open>m_ConfigurationSHM(bi::open_or_create, params.instanceName, 8192)\<close> and
  \<open>bi::shared_memory_object::remove(name)\<close>.
\<close>

definition open_or_create :: "string \<Rightarrow> world \<Rightarrow> nat \<times> world" where
  "open_or_create name w =
     (case shm_names w name of
        Some seg \<Rightarrow> (seg, w)
      | None \<Rightarrow> (shm_count w,
                 w\<lparr>shm_names := (shm_names w)(name \<mapsto> shm_count w),
                   shm_count := Suc (shm_count w)\<rparr>))"

definition shm_remove :: "string \<Rightarrow> world \<Rightarrow> world" where
  "shm_remove name w = w\<lparr>shm_names := (shm_names w)(name := None)\<rparr>"

text \<open>
  \<open>retrieveParameters\<close>: \<open>find\<close> of the object, and \<open>construct\<close> where there is
  none; the second argument says whether \<open>construct\<close> returned an object (a null result
  throws \<open>bad_alloc\<close>).
\<close>

definition retrieveParameters ::
  "32 word \<Rightarrow> bool \<Rightarrow> USVFSParameters \<Rightarrow> nat \<Rightarrow> world \<Rightarrow> (exception + nat) \<times> world" where
  "retrieveParameters initialUserCount constructed params seg w =
     (case shm_objects w seg of
        None \<Rightarrow>
          if constructed
          then (Inr seg,
                w\<lparr>shm_objects := (shm_objects w)(seg \<mapsto> SharedParameters_ctor initialUserCount params)\<rparr>)
          else (Inl bad_alloc, w)
      | Some _ \<Rightarrow> (Inr seg, w))"

text \<open>
  Assignment through the pointer \<open>m_Parameters\<close>, and \<open>m_Parameters->field.c_str()\<close>
  (the pointer that \<open>retrieveParameters\<close> returns points to a record, so the reading
  finds one).
\<close>

definition update_parameters ::
  "nat \<Rightarrow> (SharedParameters \<Rightarrow> SharedParameters) \<Rightarrow> world \<Rightarrow> world" where
  "update_parameters ptr f w =
     w\<lparr>shm_objects := (shm_objects w)(ptr := map_option f (shm_objects w ptr))\<rparr>"

definition parameter_c_str :: "(SharedParameters \<Rightarrow> string) \<Rightarrow> nat \<Rightarrow> world \<Rightarrow> string" where
  "parameter_c_str field ptr w =
     (case shm_objects w ptr of Some sp \<Rightarrow> c_str (field sp) | None \<Rightarrow> [])"

text \<open>
  Modelled from the spec: the tree containers, the type of \<open>m_Tree\<close> and
  \<open>m_InverseTree\<close>, are not among the sources. The spec: attach is to "open the two tree
  segments"; detach is "decrement \<open>userCount\<close>; on zero, unlink all three segments"; the
  three segments are "shared by all attached processes". So the constructor of a container,
  where it finds its segment (an input of the model), holds that segment, which is linked
  under its name from then on; where it does not, it holds none. The destructor of a
  container unlinks the segment it holds when the \<open>userCount\<close> of the shared record is
  zero, and unlinks nothing otherwise.
\<close>

definition tree_container_ctor :: "string \<Rightarrow> bool \<Rightarrow> world \<Rightarrow> string option \<times> world" where
  "tree_container_ctor name found w =
     (if found then (Some name, w\<lparr>tree_segments := insert name (tree_segments w)\<rparr>)
      else (None, w))"

definition tree_container_dtor :: "string option \<Rightarrow> nat \<Rightarrow> world \<Rightarrow> string list \<times> world" where
  "tree_container_dtor container ptr w =
     (case container of
        None \<Rightarrow> ([], w)
      | Some name \<Rightarrow>
          (case shm_objects w ptr of
             None \<Rightarrow> ([], w)
           | Some sp \<Rightarrow>
               if userCount sp = 0
               then ([name], w\<lparr>tree_segments := tree_segments w - {name}\<rparr>)
               else ([], w)))"

text \<open>
  The destructors of the members of a context, in the reverse of the order in which the
  constructor initialises them; the result lists the names that were unlinked. They run at
  the end of the destructor, and when the body of the constructor throws. Only the two
  tree containers act on the shared state: closing the mapping of the configuration
  segment unlinks nothing.
\<close>

definition members_dtor :: "HookContext \<Rightarrow> world \<Rightarrow> string list \<times> world" where
  "members_dtor this w =
     (let (unlinked1, w1) = tree_container_dtor (m_InverseTree this) (m_Parameters this) w;
          (unlinked2, w2) = tree_container_dtor (m_Tree this) (m_Parameters this) w1
      in (unlinked1 @ unlinked2, w2))"

text \<open>
  The constructor, run by the process \<open>pid\<close>: the member initialisers first, then the
  body. The arguments \<open>tree_found\<close> and \<open>inverse_found\<close> say whether the two
  containers find their segments. An exception thrown by the body leaves the changes made
  so far in place: the members are destroyed, the body of the destructor does not run.
\<close>

definition HookContext_ctor ::
  "32 word \<Rightarrow> bool \<Rightarrow> bool \<Rightarrow> bool \<Rightarrow> USVFSParameters \<Rightarrow> nat \<Rightarrow> 32 word \<Rightarrow> world \<Rightarrow>
   (exception + HookContext) \<times> world" where
  "HookContext_ctor initialUserCount constructed tree_found inverse_found params module pid w =
     (let (seg, w1) = open_or_create (param_instanceName params) w
      in case retrieveParameters initialUserCount constructed params seg w1 of
           (Inl e, w2) \<Rightarrow> (Inl e, w2)
         | (Inr ptr, w2) \<Rightarrow>
             (let (tree_held, w3) =
                    tree_container_ctor (parameter_c_str currentSHMName ptr w2) tree_found w2;
                  (inverse_held, w4) =
                    tree_container_ctor (parameter_c_str currentInverseSHMName ptr w3)
                      inverse_found w3;
                  this = \<lparr>m_Parameters = ptr, m_Tree = tree_held, m_InverseTree = inverse_held,
                          m_DebugMode = param_debugMode params, m_DLLModule = module\<rparr>
              in if s_Instance w4 pid \<noteq> None
                 then (Inl (runtime_error ''singleton duplicate instantiation (HookContext)''),
                       snd (members_dtor this w4))
                 else
                   (let w5 = update_parameters ptr (\<lambda>sp. sp\<lparr>userCount := userCount sp + 1\<rparr>) w4;
                        w6 = w5\<lparr>s_Instance := (s_Instance w5)(pid \<mapsto> this)\<rparr>
                    in if m_Tree this = None
                       then (Inl (usage_error ''shm not found''), snd (members_dtor this w6))
                       else (Inr this, w6))))"

text \<open>
  The body of the destructor, run by the process \<open>pid\<close> on its context \<open>this\<close>. The
  result lists the names it passes to \<open>shared_memory_object::remove\<close>; it is \<open>None\<close>
  when \<open>m_Parameters\<close> points to no record.
\<close>

definition HookContext_dtor_body ::
  "HookContext \<Rightarrow> 32 word \<Rightarrow> world \<Rightarrow> (string list \<times> world) option" where
  "HookContext_dtor_body this pid w =
     (let w1 = w\<lparr>s_Instance := (s_Instance w)(pid := None)\<rparr>;
          w2 = update_parameters (m_Parameters this) (\<lambda>sp. sp\<lparr>userCount := userCount sp - 1\<rparr>) w1
      in case shm_objects w2 (m_Parameters this) of
           None \<Rightarrow> None
         | Some sp \<Rightarrow>
             if userCount sp = 0
             then Some ([instanceName sp], shm_remove (instanceName sp) w2)
             else Some ([], w2))"

text \<open>
  The destruction of a context: the body, then the destructors of the members. The result
  lists the names of all segments unlinked on the way.
\<close>

definition HookContext_dtor ::
  "HookContext \<Rightarrow> 32 word \<Rightarrow> world \<Rightarrow> (string list \<times> world) option" where
  "HookContext_dtor this pid w =
     (case HookContext_dtor_body this pid w of
        None \<Rightarrow> None
      | Some (unlinked, w1) \<Rightarrow>
          (let (more, w2) = members_dtor this w1 in Some (unlinked @ more, w2)))"

text \<open>
  Attaches and detaches of several processes, interleaved: each event is one whole
  constructor or destructor call; an attach carries what the environment answers
  (\<open>constructed\<close>, \<open>tree_found\<close>, \<open>inverse_found\<close>). The state of a run is the number
  of attaches that threw so far, the context each process holds (the one its attach
  returned, until it is destroyed) and the shared state. A detach by a process that holds
  no context is no run.
\<close>

datatype event = Attach "32 word" USVFSParameters bool bool bool | Detach "32 word"

fun run ::
  "32 word \<Rightarrow> event list \<Rightarrow> nat \<times> (32 word \<Rightarrow> HookContext option) \<times> world \<Rightarrow>
   (nat \<times> (32 word \<Rightarrow> HookContext option) \<times> world) option" where
  "run u0 [] st = Some st"
| "run u0 (Attach pid params constructed tree_found inverse_found # es) (thrown, held, w) =
     (case HookContext_ctor u0 constructed tree_found inverse_found params 0 pid w of
        (Inr this, w') \<Rightarrow> run u0 es (thrown, held(pid \<mapsto> this), w')
      | (Inl e, w') \<Rightarrow> run u0 es (Suc thrown, held, w'))"
| "run u0 (Detach pid # es) (thrown, held, w) =
     (case held pid of
        None \<Rightarrow> None
      | Some this \<Rightarrow>
          (case HookContext_dtor this pid w of
             None \<Rightarrow> None
           | Some (unlinked, w') \<Rightarrow> run u0 es (thrown, held(pid := None), w')))"

text \<open>The state before any process has attached, and a seed to attach with.\<close>

definition no_segments :: world where
  "no_segments = \<lparr>shm_names = Map.empty, shm_objects = Map.empty, shm_count = 0,
     s_Instance = (\<lambda>pid. None), tree_segments = {}\<rparr>"

definition start :: "nat \<times> (32 word \<Rightarrow> HookContext option) \<times> world" where
  "start = (0, (\<lambda>pid. None), no_segments)"

definition seed :: USVFSParameters where
  "seed = \<lparr>param_instanceName = ''uvfs-x'', param_currentSHMName = ''tree'',
     param_currentInverseSHMName = ''inverse'', param_debugMode = False, param_logLevel = Info,
     param_crashDumpsType = Nothing, param_crashDumpsPath = []\<rparr>"









text \<open>
  The context and the shared state that the first attach with the seed produces.
\<close>

definition first_context :: HookContext where
  "first_context = \<lparr>m_Parameters = 0, m_Tree = Some ''tree'', m_InverseTree = Some ''inverse'',
     m_DebugMode = False, m_DLLModule = 0\<rparr>"

definition first_world :: world where
  "first_world = \<lparr>shm_names = [''uvfs-x'' \<mapsto> 0],
      shm_objects = [0 \<mapsto> (SharedParameters_ctor 0 seed)\<lparr>userCount := 1\<rparr>],
      shm_count = 1,
      s_Instance = (\<lambda>pid. None)(1 \<mapsto> first_context),
      tree_segments = {''inverse'', ''tree''}\<rparr>"

section \<open>Read and write access\<close>

text \<open>
  Modelled from the spec: the mutex \<open>m_Mutex\<close> and its \<open>wait\<close> are not among the
  sources. The spec: "acquire the cross-process mutex with a bounded wait"; "mutex wait
  exceeded bound; logged". The second argument is the time in milliseconds after which the
  mutex becomes free (\<open>None\<close>: it never does); the result is the time waited, whether
  the wait timed out, and what was logged.
\<close>

definition mutex_wait :: "nat \<Rightarrow> nat option \<Rightarrow> nat \<times> bool \<times> string list" where
  "mutex_wait timeout free_after =
     (case free_after of
        Some t \<Rightarrow> if t \<le> timeout then (t, False, []) else (timeout, True, [''LockTimeout''])
      | None \<Rightarrow> (timeout, True, [''LockTimeout'']))"

text \<open>
  The pointers \<open>readAccess\<close> and \<open>writeAccess\<close> return: the instance together with
  the function that releases the mutex when the pointer is dropped.
\<close>

datatype deleter = unlock | unlockShared

record access_ptr =
  target :: HookContext
  release :: deleter

datatype assertion = Assertion_failed

definition readAccess ::
  "nat option \<Rightarrow> 32 word \<Rightarrow> world \<Rightarrow> assertion + (access_ptr \<times> nat \<times> string list)" where
  "readAccess free_after pid w =
     (case s_Instance w pid of
        None \<Rightarrow> Inl Assertion_failed
      | Some ctx \<Rightarrow>
          (let (waited, timed_out, logged) = mutex_wait 200 free_after
           in Inr (\<lparr>target = ctx, release = unlockShared\<rparr>, waited, logged)))"

definition writeAccess ::
  "nat option \<Rightarrow> 32 word \<Rightarrow> world \<Rightarrow> assertion + (access_ptr \<times> nat \<times> string list)" where
  "writeAccess free_after pid w =
     (case s_Instance w pid of
        None \<Rightarrow> Inl Assertion_failed
      | Some ctx \<Rightarrow>
          (let (waited, timed_out, logged) = mutex_wait 200 free_after
           in Inr (\<lparr>target = ctx, release = unlock\<rparr>, waited, logged)))"

section \<open>Facts about strings\<close>

lemma c_str_idem: "c_str (c_str s) = c_str s"
  by (simp add: c_str_def)

lemma c_str_no_NUL: "CHR 0x00 \<notin> set (c_str s)"
  unfolding c_str_def by (auto dest: set_takeWhileD)

lemma c_str_id: "CHR 0x00 \<notin> set s \<Longrightarrow> c_str s = s"
  unfolding c_str_def by (induction s) auto

lemma c_str_Nil: "c_str [] = []"
  by (simp add: c_str_def)

lemma narrow_widen_char: "char_of (unat (of_nat (of_char c) :: 16 word)) = c"
proof -
  have "(of_char c :: nat) < 256"
    by (cases c) simp
  then have "(of_char c :: nat) < 2 ^ 16"
    by (rule less_trans) simp
  then have "unat (of_nat (of_char c) :: 16 word) = of_char c"
    by (simp add: unat_of_nat)
  then show ?thesis
    by simp
qed

lemma narrow_widen: "narrow (widen s) = s"
  by (induction s) (simp_all add: narrow_def widen_def narrow_widen_char)

lemma widen_inject: "widen s = widen t \<Longrightarrow> s = t"
  using narrow_widen by metis

lemma byte_cast_sel:
  "to_utf8 byte_cast = narrow" "from_utf8 byte_cast = widen" "from_default byte_cast = widen"
  by (simp_all add: byte_cast_def)

section \<open>Tracker laws\<close>

lemma emplace_absent: "m k = None \<Longrightarrow> emplace m k v k = Some v"
  by (simp add: emplace_def)

lemma emplace_present: "m k = Some w \<Longrightarrow> emplace m k v = m"
  by (simp add: emplace_def)

lemma emplace_defined: "emplace m k v k \<noteq> None"
  by (cases "m k") (simp_all add: emplace_def)

lemma erase_gone: "snd (erase m k) k = None"
  by (cases "m k") (simp_all add: erase_def)

text \<open>
  C4, as amended. After \<open>addDeletedFile(v, r)\<close>, \<open>existsDeletedFile(v)\<close> is true; when
  \<open>v\<close> was not tracked before the call, \<open>lookupDeletedFile(v)\<close> returns \<open>r\<close> (for a
  real path \<open>r\<close> that the string conversion round-trips); after
  \<open>forgetDeletedFile(v)\<close>, \<open>existsDeletedFile(v)\<close> is false. The fake-directory
  tracker obeys the same laws.
\<close>

theorem tracker_add_exists_lookup_forget:
  "existsDeletedFile sc v (addDeletedFile sc v r sp)
   \<and> (\<not> existsDeletedFile sc v sp \<and> from_default sc (c_str (to_utf8 sc r)) = r
        \<longrightarrow> lookupDeletedFile sc v (addDeletedFile sc v r sp) = r)
   \<and> \<not> existsDeletedFile sc v (snd (forgetDeletedFile sc v sp))
   \<and> existsFakeDirectory sc v (addFakeDirectory sc v r sp)
   \<and> (\<not> existsFakeDirectory sc v sp \<and> from_default sc (c_str (to_utf8 sc r)) = r
        \<longrightarrow> lookupFakeDirectory sc v (addFakeDirectory sc v r sp) = r)
   \<and> \<not> existsFakeDirectory sc v (snd (forgetFakeDirectory sc v sp))"
proof -
  let ?k = "c_str (to_utf8 sc v)"
  let ?s = "c_str (to_utf8 sc r)"
  have e1: "existsDeletedFile sc v (addDeletedFile sc v r sp)"
    using emplace_defined [of "deletedFileTracker sp" ?k ?s]
    by (auto simp: existsDeletedFile_def addDeletedFile_def Let_def split: option.splits)
  have l1: "lookupDeletedFile sc v (addDeletedFile sc v r sp) = r"
    if "\<not> existsDeletedFile sc v sp" "from_default sc ?s = r"
  proof -
    from that(1) have "deletedFileTracker sp ?k = None"
      by (simp add: existsDeletedFile_def Let_def split: option.splits)
    then have "emplace (deletedFileTracker sp) ?k ?s ?k = Some ?s"
      by (rule emplace_absent)
    then show ?thesis
      using that(2) by (simp add: lookupDeletedFile_def addDeletedFile_def Let_def c_str_idem)
  qed
  have f1: "\<not> existsDeletedFile sc v (snd (forgetDeletedFile sc v sp))"
    using erase_gone [of "deletedFileTracker sp" ?k]
    by (auto simp: existsDeletedFile_def forgetDeletedFile_def Let_def split: prod.splits)
  have e2: "existsFakeDirectory sc v (addFakeDirectory sc v r sp)"
    using emplace_defined [of "fakeDirectoryTracker sp" ?k ?s]
    by (auto simp: existsFakeDirectory_def addFakeDirectory_def Let_def split: option.splits)
  have l2: "lookupFakeDirectory sc v (addFakeDirectory sc v r sp) = r"
    if "\<not> existsFakeDirectory sc v sp" "from_default sc ?s = r"
  proof -
    from that(1) have "fakeDirectoryTracker sp ?k = None"
      by (simp add: existsFakeDirectory_def Let_def split: option.splits)
    then have "emplace (fakeDirectoryTracker sp) ?k ?s ?k = Some ?s"
      by (rule emplace_absent)
    then show ?thesis
      using that(2) by (simp add: lookupFakeDirectory_def addFakeDirectory_def Let_def c_str_idem)
  qed
  have f2: "\<not> existsFakeDirectory sc v (snd (forgetFakeDirectory sc v sp))"
    using erase_gone [of "fakeDirectoryTracker sp" ?k]
    by (auto simp: existsFakeDirectory_def forgetFakeDirectory_def Let_def split: prod.splits)
  from e1 l1 f1 e2 l2 f2 show ?thesis
    by blast
qed

theorem tracker_add_exists_lookup_forget_witness:
  "\<not> existsDeletedFile byte_cast (widen ''data/b.txt'') blank
   \<and> from_default byte_cast (c_str (to_utf8 byte_cast (widen ''C:/s2/b.txt''))) = widen ''C:/s2/b.txt''
   \<and> existsDeletedFile byte_cast (widen ''data/b.txt'')
         (addDeletedFile byte_cast (widen ''data/b.txt'') (widen ''C:/s2/b.txt'') blank)
   \<and> lookupDeletedFile byte_cast (widen ''data/b.txt'')
         (addDeletedFile byte_cast (widen ''data/b.txt'') (widen ''C:/s2/b.txt'') blank)
       = widen ''C:/s2/b.txt''
   \<and> \<not> existsFakeDirectory byte_cast (widen ''data/b.txt'') blank
   \<and> lookupFakeDirectory byte_cast (widen ''data/b.txt'')
         (addFakeDirectory byte_cast (widen ''data/b.txt'') (widen ''C:/s2/b.txt'') blank)
       = widen ''C:/s2/b.txt''"
proof -
  have h1: "\<not> existsDeletedFile byte_cast (widen ''data/b.txt'') blank"
    by (simp add: existsDeletedFile_def blank_def)
  have h2: "\<not> existsFakeDirectory byte_cast (widen ''data/b.txt'') blank"
    by (simp add: existsFakeDirectory_def blank_def)
  have h3: "from_default byte_cast (c_str (to_utf8 byte_cast (widen ''C:/s2/b.txt'')))
      = widen ''C:/s2/b.txt''"
    by (simp add: byte_cast_sel narrow_widen c_str_def)
  show ?thesis
    using h1 h2 h3
      tracker_add_exists_lookup_forget
        [of byte_cast "widen ''data/b.txt''" "widen ''C:/s2/b.txt''" blank]
    by blast
qed

text \<open>
  C4, as stated, fails where \<open>v\<close> is already tracked: the second \<open>addDeletedFile\<close>
  for the same virtual path does not replace the stored real path, and the lookup returns
  the first one.
\<close>

theorem tracker_add_lookup_counterexample:
  "lookupDeletedFile byte_cast (widen ''data/b.txt'')
     (addDeletedFile byte_cast (widen ''data/b.txt'') (widen ''C:/s2/b.txt'')
       (addDeletedFile byte_cast (widen ''data/b.txt'') (widen ''C:/s1/b.txt'') blank))
   \<noteq> widen ''C:/s2/b.txt''"
proof -
  have "lookupDeletedFile byte_cast (widen ''data/b.txt'')
     (addDeletedFile byte_cast (widen ''data/b.txt'') (widen ''C:/s2/b.txt'')
       (addDeletedFile byte_cast (widen ''data/b.txt'') (widen ''C:/s1/b.txt'') blank))
     = widen ''C:/s1/b.txt''"
    by (simp add: lookupDeletedFile_def addDeletedFile_def emplace_def blank_def
        byte_cast_sel narrow_widen c_str_def)
  moreover have "widen ''C:/s1/b.txt'' \<noteq> widen ''C:/s2/b.txt''"
    using widen_inject [of "''C:/s1/b.txt''" "''C:/s2/b.txt''"] by auto
  ultimately show ?thesis
    by simp
qed

text \<open>
  C8. \<open>addDeletedFile\<close> never overwrites: when \<open>v\<close> is already tracked and its lookup
  returns \<open>r1\<close>, \<open>addDeletedFile(v, r2)\<close> leaves the shared record, and with it the
  tracker, unchanged, and \<open>lookupDeletedFile(v)\<close> still returns \<open>r1\<close>. The same holds
  for \<open>addFakeDirectory\<close>.
\<close>

theorem add_never_overwrites:
  "(existsDeletedFile sc v sp \<and> lookupDeletedFile sc v sp = r1
      \<longrightarrow> addDeletedFile sc v r2 sp = sp
          \<and> lookupDeletedFile sc v (addDeletedFile sc v r2 sp) = r1)
   \<and> (existsFakeDirectory sc v sp \<and> lookupFakeDirectory sc v sp = r1
      \<longrightarrow> addFakeDirectory sc v r2 sp = sp
          \<and> lookupFakeDirectory sc v (addFakeDirectory sc v r2 sp) = r1)"
proof -
  let ?k = "c_str (to_utf8 sc v)"
  have d: "addDeletedFile sc v r2 sp = sp" if "existsDeletedFile sc v sp"
  proof -
    from that obtain w where "deletedFileTracker sp ?k = Some w"
      by (auto simp: existsDeletedFile_def Let_def split: option.splits)
    then have "emplace (deletedFileTracker sp) ?k (c_str (to_utf8 sc r2)) = deletedFileTracker sp"
      by (rule emplace_present)
    then show ?thesis
      by (simp add: addDeletedFile_def Let_def)
  qed
  have f: "addFakeDirectory sc v r2 sp = sp" if "existsFakeDirectory sc v sp"
  proof -
    from that obtain w where "fakeDirectoryTracker sp ?k = Some w"
      by (auto simp: existsFakeDirectory_def Let_def split: option.splits)
    then have "emplace (fakeDirectoryTracker sp) ?k (c_str (to_utf8 sc r2)) = fakeDirectoryTracker sp"
      by (rule emplace_present)
    then show ?thesis
      by (simp add: addFakeDirectory_def Let_def)
  qed
  from d f show ?thesis
    by simp
qed

theorem add_never_overwrites_witness:
  "existsDeletedFile byte_cast (widen ''data/b.txt'')
     (addDeletedFile byte_cast (widen ''data/b.txt'') (widen ''C:/s1/b.txt'') blank)
   \<and> lookupDeletedFile byte_cast (widen ''data/b.txt'')
     (addDeletedFile byte_cast (widen ''data/b.txt'') (widen ''C:/s1/b.txt'') blank)
     = widen ''C:/s1/b.txt''
   \<and> widen ''C:/s2/b.txt'' \<noteq> widen ''C:/s1/b.txt''
   \<and> lookupDeletedFile byte_cast (widen ''data/b.txt'')
     (addDeletedFile byte_cast (widen ''data/b.txt'') (widen ''C:/s2/b.txt'')
       (addDeletedFile byte_cast (widen ''data/b.txt'') (widen ''C:/s1/b.txt'') blank))
     = widen ''C:/s1/b.txt''
   \<and> existsFakeDirectory byte_cast (widen ''data/b.txt'')
     (addFakeDirectory byte_cast (widen ''data/b.txt'') (widen ''C:/s1/b.txt'') blank)
   \<and> lookupFakeDirectory byte_cast (widen ''data/b.txt'')
     (addFakeDirectory byte_cast (widen ''data/b.txt'') (widen ''C:/s2/b.txt'')
       (addFakeDirectory byte_cast (widen ''data/b.txt'') (widen ''C:/s1/b.txt'') blank))
     = widen ''C:/s1/b.txt''"
proof -
  let ?v = "widen ''data/b.txt''"
  let ?d = "addDeletedFile byte_cast ?v (widen ''C:/s1/b.txt'') blank"
  let ?f = "addFakeDirectory byte_cast ?v (widen ''C:/s1/b.txt'') blank"
  have h1: "existsDeletedFile byte_cast ?v ?d"
    by (simp add: existsDeletedFile_def addDeletedFile_def emplace_def blank_def)
  have h2: "lookupDeletedFile byte_cast ?v ?d = widen ''C:/s1/b.txt''"
    by (simp add: lookupDeletedFile_def addDeletedFile_def emplace_def blank_def
        byte_cast_sel narrow_widen c_str_def)
  have h3: "existsFakeDirectory byte_cast ?v ?f"
    by (simp add: existsFakeDirectory_def addFakeDirectory_def emplace_def blank_def)
  have h4: "lookupFakeDirectory byte_cast ?v ?f = widen ''C:/s1/b.txt''"
    by (simp add: lookupFakeDirectory_def addFakeDirectory_def emplace_def blank_def
        byte_cast_sel narrow_widen c_str_def)
  have h5: "widen ''C:/s2/b.txt'' \<noteq> widen ''C:/s1/b.txt''"
    using widen_inject [of "''C:/s2/b.txt''" "''C:/s1/b.txt''"] by auto
  show ?thesis
    using h1 h2 h3 h4 h5
      add_never_overwrites [of byte_cast ?v ?d "widen ''C:/s1/b.txt''" "widen ''C:/s2/b.txt''"]
      add_never_overwrites [of byte_cast ?v ?f "widen ''C:/s1/b.txt''" "widen ''C:/s2/b.txt''"]
    by blast
qed

text \<open>
  C9. For a virtual path that is not tracked, \<open>lookupDeletedFile\<close> and
  \<open>lookupFakeDirectory\<close> return the empty string; no error is signalled (the result
  type has no error value). A tracked entry whose stored real path is empty gives the same
  result (the conversion of an empty string being empty), so the two cases cannot be told
  apart from the result.
\<close>

theorem lookup_untracked_is_empty:
  "(\<not> existsDeletedFile sc v sp \<longrightarrow> lookupDeletedFile sc v sp = [])
   \<and> (deletedFileTracker sp' (c_str (to_utf8 sc v)) = Some [] \<and> from_default sc [] = []
        \<longrightarrow> existsDeletedFile sc v sp' \<and> lookupDeletedFile sc v sp' = [])
   \<and> (\<not> existsFakeDirectory sc v sp \<longrightarrow> lookupFakeDirectory sc v sp = [])
   \<and> (fakeDirectoryTracker sp' (c_str (to_utf8 sc v)) = Some [] \<and> from_default sc [] = []
        \<longrightarrow> existsFakeDirectory sc v sp' \<and> lookupFakeDirectory sc v sp' = [])"
  by (simp add: existsDeletedFile_def lookupDeletedFile_def existsFakeDirectory_def
      lookupFakeDirectory_def Let_def c_str_Nil split: option.splits)

theorem lookup_untracked_is_empty_witness:
  "\<not> existsDeletedFile byte_cast (widen ''data/a.txt'') blank
   \<and> lookupDeletedFile byte_cast (widen ''data/a.txt'') blank = []
   \<and> existsDeletedFile byte_cast (widen ''data/a.txt'')
        (addDeletedFile byte_cast (widen ''data/a.txt'') [] blank)
   \<and> lookupDeletedFile byte_cast (widen ''data/a.txt'')
        (addDeletedFile byte_cast (widen ''data/a.txt'') [] blank) = []
   \<and> \<not> existsFakeDirectory byte_cast (widen ''data/a.txt'') blank
   \<and> lookupFakeDirectory byte_cast (widen ''data/a.txt'') blank = []
   \<and> existsFakeDirectory byte_cast (widen ''data/a.txt'')
        (addFakeDirectory byte_cast (widen ''data/a.txt'') [] blank)
   \<and> lookupFakeDirectory byte_cast (widen ''data/a.txt'')
        (addFakeDirectory byte_cast (widen ''data/a.txt'') [] blank) = []"
proof -
  let ?v = "widen ''data/a.txt''"
  let ?d = "addDeletedFile byte_cast ?v [] blank"
  let ?f = "addFakeDirectory byte_cast ?v [] blank"
  have h1: "\<not> existsDeletedFile byte_cast ?v blank"
    by (simp add: existsDeletedFile_def blank_def)
  have h2: "\<not> existsFakeDirectory byte_cast ?v blank"
    by (simp add: existsFakeDirectory_def blank_def)
  have h3: "deletedFileTracker ?d (c_str (to_utf8 byte_cast ?v)) = Some []"
    by (simp add: addDeletedFile_def emplace_def blank_def byte_cast_sel narrow_def c_str_Nil)
  have h4: "fakeDirectoryTracker ?f (c_str (to_utf8 byte_cast ?v)) = Some []"
    by (simp add: addFakeDirectory_def emplace_def blank_def byte_cast_sel narrow_def c_str_Nil)
  have h5: "from_default byte_cast [] = []"
    by (simp add: byte_cast_sel widen_def)
  show ?thesis
    using h1 h2 h3 h4 h5
      lookup_untracked_is_empty [of byte_cast ?v blank ?d]
      lookup_untracked_is_empty [of byte_cast ?v blank ?f]
    by blast
qed

section \<open>Unregistering the current process\<close>

text \<open>
  C10. \<open>unregisterCurrentProcess\<close> erases the iterator returned by \<open>find\<close> without
  comparing it with \<open>end()\<close>. When the current process identifier is in
  \<open>processList\<close>, exactly that entry is removed and nothing else of the record changes;
  when it is not, the call erases the end iterator, and there are states in which it does.
\<close>

theorem unregisterCurrentProcess_unchecked:
  "(pid \<in> processList sp \<longrightarrow>
      unregisterCurrentProcess pid sp = Inr (sp\<lparr>processList := processList sp - {pid}\<rparr>))
   \<and> (pid \<notin> processList sp \<longrightarrow> unregisterCurrentProcess pid sp = Inl Erase_end_iterator)
   \<and> (\<exists>pid' sp'. unregisterCurrentProcess pid' sp' = Inl Erase_end_iterator)"
proof -
  have "unregisterCurrentProcess 8 (registerProcess 7 blank) = Inl Erase_end_iterator"
    by (simp add: unregisterCurrentProcess_def registerProcess_def blank_def)
  then have "\<exists>pid' sp'. unregisterCurrentProcess pid' sp' = Inl Erase_end_iterator"
    by blast
  moreover have "pid \<in> processList sp \<longrightarrow>
      unregisterCurrentProcess pid sp = Inr (sp\<lparr>processList := processList sp - {pid}\<rparr>)"
    by (simp add: unregisterCurrentProcess_def)
  moreover have "pid \<notin> processList sp \<longrightarrow>
      unregisterCurrentProcess pid sp = Inl Erase_end_iterator"
    by (simp add: unregisterCurrentProcess_def)
  ultimately show ?thesis
    by blast
qed

theorem unregisterCurrentProcess_unchecked_witness:
  "7 \<in> processList (registerProcess 8 (registerProcess 7 blank))
   \<and> unregisterCurrentProcess 7 (registerProcess 8 (registerProcess 7 blank))
       = Inr (registerProcess 8 blank)
   \<and> 9 \<notin> processList (registerProcess 8 (registerProcess 7 blank))
   \<and> unregisterCurrentProcess 9 (registerProcess 8 (registerProcess 7 blank))
       = Inl Erase_end_iterator"
proof -
  let ?sp = "registerProcess 8 (registerProcess 7 blank)"
  have h1: "7 \<in> processList ?sp"
    by (simp add: registerProcess_def)
  have h2: "9 \<notin> processList ?sp"
    by (simp add: registerProcess_def blank_def)
  have "{8, 7} - {7} = {8::32 word}"
    by auto
  then have h3: "?sp\<lparr>processList := processList ?sp - {7}\<rparr> = registerProcess 8 blank"
    by (simp add: registerProcess_def blank_def)
  show ?thesis
    using h1 h2 h3
      unregisterCurrentProcess_unchecked [of 7 ?sp]
      unregisterCurrentProcess_unchecked [of 9 ?sp]
    by simp
qed

section \<open>The blacklist test\<close>

lemma match_at_prefix: "match_at xs ts = prefix (map toupper ts) (map toupper xs)"
  by (induction xs ts rule: match_at.induct) (simp_all add: is_iequal_def)

lemma ends_with_loop_prefix: "ends_with_loop xs ts = prefix (map toupper ts) (map toupper xs)"
  by (induction xs ts rule: ends_with_loop.induct) (simp_all add: is_iequal_def)

lemma iends_with_suffix: "iends_with s item = caseless_suffix item s"
  by (simp add: iends_with_def caseless_suffix_def ends_with_loop_prefix suffix_to_prefix rev_map)

lemma first_finder_sublist:
  "t \<noteq> [] \<Longrightarrow> first_finder xs t = sublist (map toupper t) (map toupper xs)"
  by (induction xs) (simp_all add: match_at_prefix sublist_Cons_right)

lemma icontains_sublist: "icontains s item = caseless_substring item s"
  by (cases "item = []") (simp_all add: icontains_def caseless_substring_def first_finder_sublist)

lemma app_loop_iff: "app_loop a items b = (b \<or> (\<exists>item \<in> set items. iends_with a item))"
  by (induction items) auto

lemma cmd_loop_iff: "cmd_loop a items b = (b \<or> (\<exists>item \<in> set items. icontains a item))"
  by (induction items) auto

text \<open>
  C1. \<open>executableBlacklisted(appName, commandLine)\<close> is true exactly when some entry
  of the blacklist is a case-insensitive suffix of the application name, or some entry is
  a case-insensitive substring of the command line; a null pointer contributes no match
  on its side.
\<close>

theorem executableBlacklisted_iff:
  "executableBlacklisted sc lpApplicationName lpCommandLine sp
   \<longleftrightarrow> (\<exists>appName item. lpApplicationName = Some appName \<and> item \<in> set (processBlacklist sp)
          \<and> caseless_suffix item (to_utf8 sc appName))
     \<or> (\<exists>commandLine item. lpCommandLine = Some commandLine \<and> item \<in> set (processBlacklist sp)
          \<and> caseless_substring item (to_utf8 sc commandLine))"
  by (cases lpApplicationName; cases lpCommandLine)
     (auto simp: executableBlacklisted_def app_loop_iff cmd_loop_iff iends_with_suffix icontains_sublist)

theorem executableBlacklisted_iff_witness:
  "executableBlacklisted byte_cast (Some (widen ''C:/x/helper.TMP.EXE'')) None
     (blacklistExecutable byte_cast (widen ''.tmp.exe'') blank)
   \<and> \<not> executableBlacklisted byte_cast None None
     (blacklistExecutable byte_cast (widen ''.tmp.exe'') blank)
   \<and> executableBlacklisted byte_cast None (Some (widen ''run a.Tmp.exe now''))
     (blacklistExecutable byte_cast (widen ''.tmp.exe'') blank)"
proof -
  let ?sp = "blacklistExecutable byte_cast (widen ''.tmp.exe'') blank"
  have bl: "processBlacklist ?sp = [''.tmp.exe'']"
    by (simp add: blacklistExecutable_def blank_def byte_cast_sel narrow_widen c_str_def)
  have s1: "caseless_suffix ''.tmp.exe'' (to_utf8 byte_cast (widen ''C:/x/helper.TMP.EXE''))"
    by (simp add: caseless_suffix_def byte_cast_sel narrow_widen toupper_def suffix_to_prefix)
  have s2: "caseless_substring ''.tmp.exe'' (to_utf8 byte_cast (widen ''run a.Tmp.exe now''))"
    by (simp add: caseless_substring_def byte_cast_sel narrow_widen toupper_def
        sublist_Cons_right)
  show ?thesis
    using bl s1 s2
      executableBlacklisted_iff [of byte_cast "Some (widen ''C:/x/helper.TMP.EXE'')" None ?sp]
      executableBlacklisted_iff [of byte_cast None None ?sp]
      executableBlacklisted_iff [of byte_cast None "Some (widen ''run a.Tmp.exe now'')" ?sp]
    by simp
qed

section \<open>The forced libraries of a process\<close>

lemma tolower_NUL: "tolower c = CHR 0x00 \<longleftrightarrow> c = CHR 0x00"
  by (cases c) (auto simp: tolower_def)

lemma of_char_eq_0: "(of_char c :: nat) = 0 \<longleftrightarrow> c = CHR 0x00"
  by (cases c) (auto)

lemma toupper_tolower: "toupper (tolower c) = toupper c"
  by (cases c) (auto simp: tolower_def toupper_def less_eq_char_def)

lemma tolower_toupper': "tolower (toupper c) = tolower c"
  by (cases c) (auto simp: tolower_def toupper_def less_eq_char_def)

lemma tolower_toupper: "tolower a = tolower b \<longleftrightarrow> toupper a = toupper b"
  by (metis toupper_tolower tolower_toupper')

lemma stricmp_loop_zero:
  "CHR 0x00 \<notin> set s \<Longrightarrow> CHR 0x00 \<notin> set t \<Longrightarrow>
   stricmp_loop s t = 0 \<longleftrightarrow> map tolower s = map tolower t"
  by (induction s t rule: stricmp_loop.induct) (auto simp: tolower_NUL of_char_eq_0)

lemma map_tolower_toupper: "map tolower s = map tolower t \<longleftrightarrow> map toupper s = map toupper t"
proof (induction s arbitrary: t)
  case Nil
  then show ?case by simp
next
  case (Cons a s)
  then show ?case by (cases t) (simp_all add: tolower_toupper)
qed

lemma stricmp_zero: "stricmp s t = 0 \<longleftrightarrow> caseless_equal (c_str s) (c_str t)"
  unfolding stricmp_def caseless_equal_def
  using stricmp_loop_zero [OF c_str_no_NUL c_str_no_NUL] map_tolower_toupper by simp

lemma force_load_loop_eq:
  "force_load_loop sc n libs acc =
     acc @ map (\<lambda>l. from_utf8 sc (c_str (libraryPath l)))
           (filter (\<lambda>l. caseless_equal (c_str (to_utf8 sc n)) (c_str (processName l))) libs)"
  by (induction libs arbitrary: acc) (simp_all add: stricmp_zero Let_def)


text \<open>
  C7. \<open>librariesToForceLoad(processName)\<close> returns, in list order, the library paths
  of exactly those registered pairs whose process name equals the argument under
  case-insensitive exact comparison of the two C strings.
\<close>

theorem librariesToForceLoad_exact:
  "librariesToForceLoad sc processNameW sp =
     map (\<lambda>l. from_utf8 sc (c_str (libraryPath l)))
       (filter (\<lambda>l. caseless_equal (c_str (to_utf8 sc processNameW)) (c_str (processName l)))
          (forcedLibraries sp))"
  by (simp add: librariesToForceLoad_def force_load_loop_eq)

theorem librariesToForceLoad_exact_witness:
  "librariesToForceLoad byte_cast (widen ''GAME.exe'')
     (forceLoadLibrary byte_cast (widen ''game.EXE'') (widen ''b.dll'')
       (forceLoadLibrary byte_cast (widen ''game.exe.bak'') (widen ''c.dll'')
         (forceLoadLibrary byte_cast (widen ''game.exe'') (widen ''a.dll'') blank)))
   = [widen ''b.dll'', widen ''a.dll'']"
proof -
  let ?sp = "forceLoadLibrary byte_cast (widen ''game.EXE'') (widen ''b.dll'')
       (forceLoadLibrary byte_cast (widen ''game.exe.bak'') (widen ''c.dll'')
         (forceLoadLibrary byte_cast (widen ''game.exe'') (widen ''a.dll'') blank))"
  have libs: "forcedLibraries ?sp =
      [\<lparr>processName = ''game.EXE'', libraryPath = ''b.dll''\<rparr>,
       \<lparr>processName = ''game.exe.bak'', libraryPath = ''c.dll''\<rparr>,
       \<lparr>processName = ''game.exe'', libraryPath = ''a.dll''\<rparr>]"
    by (simp add: forceLoadLibrary_def blank_def byte_cast_sel narrow_widen c_str_def)
  show ?thesis
    using librariesToForceLoad_exact [of byte_cast "widen ''GAME.exe''" ?sp]
    by (simp add: libs byte_cast_sel narrow_widen c_str_def caseless_equal_def toupper_def)
qed

section \<open>Truncation of the seed strings\<close>

text \<open>
  C6. Whatever the lengths of the four seed strings, \<open>USVFSInitParametersInt\<close> does
  not fail: each array receives the longest prefix of its string that fits together with
  the terminating NUL, so an over-long string is truncated, not rejected. The three
  scalar fields are copied.
\<close>

theorem USVFSInitParametersInt_truncates:
  assumes "0 < instanceName_size ext" "0 < currentSHMName_size ext"
    "0 < currentInverseSHMName_size ext" "0 < crashDumpsPath_size ext"
  shows "\<exists>p. USVFSInitParametersInt ext parameters (Some a) (Some b) (Some c) dm ll ct (Some d) = Inr p
    \<and> param_instanceName p = take (instanceName_size ext - 1) (c_str a)
    \<and> param_currentSHMName p = take (currentSHMName_size ext - 1) (c_str b)
    \<and> param_currentInverseSHMName p = take (currentInverseSHMName_size ext - 1) (c_str c)
    \<and> param_crashDumpsPath p = take (crashDumpsPath_size ext - 1) (c_str d)
    \<and> length (param_instanceName p) < instanceName_size ext
    \<and> length (param_currentSHMName p) < currentSHMName_size ext
    \<and> length (param_currentInverseSHMName p) < currentInverseSHMName_size ext
    \<and> length (param_crashDumpsPath p) < crashDumpsPath_size ext
    \<and> (instanceName_size ext \<le> length (c_str a)
         \<longrightarrow> length (param_instanceName p) = instanceName_size ext - 1)
    \<and> (currentSHMName_size ext \<le> length (c_str b)
         \<longrightarrow> length (param_currentSHMName p) = currentSHMName_size ext - 1)
    \<and> (currentInverseSHMName_size ext \<le> length (c_str c)
         \<longrightarrow> length (param_currentInverseSHMName p) = currentInverseSHMName_size ext - 1)
    \<and> (crashDumpsPath_size ext \<le> length (c_str d)
         \<longrightarrow> length (param_crashDumpsPath p) = crashDumpsPath_size ext - 1)
    \<and> param_debugMode p = dm \<and> param_logLevel p = ll \<and> param_crashDumpsType p = ct"
  using assms by (auto simp: USVFSInitParametersInt_def strncpy_s_TRUNCATE_def)

theorem USVFSInitParametersInt_truncates_witness:
  "USVFSInitParametersInt
     \<lparr>instanceName_size = 4, currentSHMName_size = 4, currentInverseSHMName_size = 6,
      crashDumpsPath_size = 1\<rparr>
     \<lparr>param_instanceName = [], param_currentSHMName = [], param_currentInverseSHMName = [],
      param_debugMode = False, param_logLevel = Debug, param_crashDumpsType = Nothing,
      param_crashDumpsPath = []\<rparr>
     (Some ''uvfs-x'') (Some ''abc'') (Some ''inverse'') True Info Mini (Some ''C:/dumps'')
   = Inr \<lparr>param_instanceName = ''uvf'', param_currentSHMName = ''abc'',
      param_currentInverseSHMName = ''inver'', param_debugMode = True, param_logLevel = Info,
      param_crashDumpsType = Mini, param_crashDumpsPath = []\<rparr>"
proof -
  let ?ext = "\<lparr>instanceName_size = 4, currentSHMName_size = 4, currentInverseSHMName_size = 6,
      crashDumpsPath_size = 1\<rparr>"
  let ?z = "\<lparr>param_instanceName = [], param_currentSHMName = [], param_currentInverseSHMName = [],
      param_debugMode = False, param_logLevel = Debug, param_crashDumpsType = Nothing,
      param_crashDumpsPath = []\<rparr>"
  have h: "0 < instanceName_size ?ext" "0 < currentSHMName_size ?ext"
    "0 < currentInverseSHMName_size ?ext" "0 < crashDumpsPath_size ?ext"
    by simp_all
  from USVFSInitParametersInt_truncates
    [OF h, of ?z "''uvfs-x''" "''abc''" "''inverse''" True Info Mini "''C:/dumps''"]
  obtain p where p: "USVFSInitParametersInt ?ext ?z (Some ''uvfs-x'') (Some ''abc'')
        (Some ''inverse'') True Info Mini (Some ''C:/dumps'') = Inr p"
    and f: "param_instanceName p = take (instanceName_size ?ext - 1) (c_str ''uvfs-x'')"
      "param_currentSHMName p = take (currentSHMName_size ?ext - 1) (c_str ''abc'')"
      "param_currentInverseSHMName p = take (currentInverseSHMName_size ?ext - 1) (c_str ''inverse'')"
      "param_crashDumpsPath p = take (crashDumpsPath_size ?ext - 1) (c_str ''C:/dumps'')"
      "param_debugMode p = True" "param_logLevel p = Info" "param_crashDumpsType p = Mini"
    by blast
  have "p = \<lparr>param_instanceName = ''uvf'', param_currentSHMName = ''abc'',
      param_currentInverseSHMName = ''inver'', param_debugMode = True, param_logLevel = Info,
      param_crashDumpsType = Mini, param_crashDumpsPath = []\<rparr>"
    using f by (cases p) (simp add: c_str_def)
  with p show ?thesis
    by simp
qed

section \<open>The reference count\<close>























lemma members_dtor_fields:
  "shm_names (snd (members_dtor this w)) = shm_names w
   \<and> shm_objects (snd (members_dtor this w)) = shm_objects w
   \<and> shm_count (snd (members_dtor this w)) = shm_count w
   \<and> s_Instance (snd (members_dtor this w)) = s_Instance w"
  by (simp add: members_dtor_def tree_container_dtor_def Let_def
      split: option.splits prod.splits)
















lemma first_attach:
  "HookContext_ctor 0 True True True seed 0 1 no_segments = (Inr first_context, first_world)"
  by (simp add: HookContext_ctor_def open_or_create_def retrieveParameters_def
      update_parameters_def parameter_c_str_def tree_container_ctor_def
      SharedParameters_ctor_def no_segments_def seed_def first_context_def first_world_def
      c_str_def Let_def)

lemma first_world_sel:
  "shm_names first_world = [''uvfs-x'' \<mapsto> 0]"
  "shm_objects first_world = [0 \<mapsto> (SharedParameters_ctor 0 seed)\<lparr>userCount := 1\<rparr>]"
  "shm_count first_world = 1"
  "s_Instance first_world = (\<lambda>pid. None)(1 \<mapsto> first_context)"
  "tree_segments first_world = {''inverse'', ''tree''}"
  by (simp_all add: first_world_def)



lemma initial_count_matters:
  "\<exists>held w. run 1 [Attach 1 seed True True True, Detach 1] start = Some (0, held, w)
     \<and> shm_names w ''uvfs-x'' = Some 0"
  by (simp add: start_def HookContext_ctor_def HookContext_dtor_def
      HookContext_dtor_body_def members_dtor_def tree_container_ctor_def
      tree_container_dtor_def parameter_c_str_def open_or_create_def
      retrieveParameters_def update_parameters_def shm_remove_def SharedParameters_ctor_def
      no_segments_def seed_def c_str_def Let_def)




section \<open>One context per process\<close>

text \<open>
  C3. In every state in which the process already has an instance, the constructor
  returns no context: it throws, and the instance pointer of the process stays as it
  was. The exception is the runtime error "singleton duplicate instantiation
  (HookContext)" whenever the member initialisers complete, which they do unless
  \<open>construct\<close> yields no record (then \<open>bad_alloc\<close> is thrown before the check is
  reached).
\<close>

theorem duplicate_attach_fails:
  assumes "s_Instance w pid \<noteq> None"
  shows "\<exists>e w'.
      HookContext_ctor u0 constructed tree_found inverse_found params module pid w = (Inl e, w')
      \<and> s_Instance w' = s_Instance w
      \<and> (e = runtime_error ''singleton duplicate instantiation (HookContext)''
          \<or> (e = bad_alloc \<and> \<not> constructed))
      \<and> (constructed \<longrightarrow> e = runtime_error ''singleton duplicate instantiation (HookContext)'')"
proof -
  obtain seg w1 where o: "open_or_create (param_instanceName params) w = (seg, w1)"
    by (cases "open_or_create (param_instanceName params) w")
  have i1: "s_Instance w1 = s_Instance w"
    using o by (auto simp: open_or_create_def split: option.splits)
  obtain res w2 where r: "retrieveParameters u0 constructed params seg w1 = (res, w2)"
    by (cases "retrieveParameters u0 constructed params seg w1")
  have i2: "s_Instance w2 = s_Instance w"
    using r i1 by (auto simp: retrieveParameters_def split: option.splits if_splits)
  show ?thesis
  proof (cases res)
    case (Inl e)
    with r have "e = bad_alloc \<and> \<not> constructed"
      by (auto simp: retrieveParameters_def split: option.splits if_splits)
    with Inl o r i2 show ?thesis
      by (simp add: HookContext_ctor_def)
  next
    case (Inr ptr)
    obtain th w3 where t: "tree_container_ctor (parameter_c_str currentSHMName ptr w2) tree_found w2
        = (th, w3)"
      by (cases "tree_container_ctor (parameter_c_str currentSHMName ptr w2) tree_found w2")
    obtain ih w4 where v: "tree_container_ctor (parameter_c_str currentInverseSHMName ptr w3)
        inverse_found w3 = (ih, w4)"
      by (cases "tree_container_ctor (parameter_c_str currentInverseSHMName ptr w3)
        inverse_found w3")
    have i4: "s_Instance w4 = s_Instance w"
      using t v i2 by (auto simp: tree_container_ctor_def split: if_splits)
    let ?ctx = "\<lparr>m_Parameters = ptr, m_Tree = th, m_InverseTree = ih,
        m_DebugMode = param_debugMode params, m_DLLModule = module\<rparr>"
    have "HookContext_ctor u0 constructed tree_found inverse_found params module pid w =
        (Inl (runtime_error ''singleton duplicate instantiation (HookContext)''),
         snd (members_dtor ?ctx w4))"
      using o r Inr t v i4 assms by (simp add: HookContext_ctor_def)
    moreover have "s_Instance (snd (members_dtor ?ctx w4)) = s_Instance w"
      using members_dtor_fields [of ?ctx w4] i4 by simp
    ultimately show ?thesis
      by simp
  qed
qed

theorem duplicate_attach_fails_witness:
  "s_Instance (snd (HookContext_ctor 0 True True True seed 0 1 no_segments)) 1 \<noteq> None
   \<and> fst (HookContext_ctor 0 True True True seed 0 1
            (snd (HookContext_ctor 0 True True True seed 0 1 no_segments)))
       = Inl (runtime_error ''singleton duplicate instantiation (HookContext)'')"
proof -
  let ?w = "snd (HookContext_ctor 0 True True True seed 0 1 no_segments)"
  have h: "s_Instance ?w 1 \<noteq> None"
    by (simp add: first_attach first_world_sel)
  from duplicate_attach_fails [OF h, of 0 True True True seed 0] h show ?thesis
    by auto
qed

section \<open>Waiting for the mutex\<close>

text \<open>
  C5. In a process that has an instance, \<open>readAccess\<close> and \<open>writeAccess\<close> wait for
  the mutex with the bound 200 and return a pointer to the instance whatever the wait
  reports: the wait lasts at most 200 ms, and unless the mutex became free within that
  time the full 200 ms were waited, the timeout is in the log, and the pointer is
  returned all the same.
\<close>

theorem access_waits_200ms:
  assumes "s_Instance w pid = Some ctx"
  shows "\<exists>waited logged.
      readAccess free_after pid w = Inr (\<lparr>target = ctx, release = unlockShared\<rparr>, waited, logged)
      \<and> writeAccess free_after pid w = Inr (\<lparr>target = ctx, release = unlock\<rparr>, waited, logged)
      \<and> waited \<le> 200
      \<and> ((\<exists>t. free_after = Some t \<and> t \<le> 200) \<or> (waited = 200 \<and> logged \<noteq> []))"
  using assms
  by (auto simp: readAccess_def writeAccess_def mutex_wait_def split: option.splits)

theorem access_waits_200ms_witness:
  "readAccess (Some 500) 1 (snd (HookContext_ctor 0 True True True seed 0 1 no_segments))
     = Inr (\<lparr>target = first_context, release = unlockShared\<rparr>, 200, [''LockTimeout''])
   \<and> writeAccess None 1 (snd (HookContext_ctor 0 True True True seed 0 1 no_segments))
     = Inr (\<lparr>target = first_context, release = unlock\<rparr>, 200, [''LockTimeout''])
   \<and> readAccess (Some 3) 1 (snd (HookContext_ctor 0 True True True seed 0 1 no_segments))
     = Inr (\<lparr>target = first_context, release = unlockShared\<rparr>, 3, [])"
proof -
  let ?w = "snd (HookContext_ctor 0 True True True seed 0 1 no_segments)"
  have h: "s_Instance ?w 1 = Some first_context"
    by (simp add: first_attach first_world_sel)
  have "readAccess (Some 3) 1 ?w = Inr (\<lparr>target = first_context, release = unlockShared\<rparr>, 3, [])"
    by (simp add: readAccess_def h mutex_wait_def)
  moreover have "\<not> (\<exists>t. Some (500::nat) = Some t \<and> t \<le> 200)"
    by simp
  moreover have "\<not> (\<exists>t::nat. None = Some t \<and> t \<le> 200)"
    by simp
  ultimately show ?thesis
    using access_waits_200ms [OF h, of "Some 500"] access_waits_200ms [OF h, of None]
    by (auto simp: readAccess_def writeAccess_def mutex_wait_def h)
qed

end
